theory Spec2Isabelle
  imports Complex_Main
begin

section \<open>FunSearch: the sampler workers and the orchestrator\<close>

text \<open>
  A shallow embedding of \<^verbatim>\<open>llm4ad/method/funsearch/funsearch.py\<close>: the class
  \<^verbatim>\<open>FunSearch\<close>, its worker loop \<^verbatim>\<open>_sample_evaluate_register\<close> and
  \<^verbatim>\<open>run\<close>. The object \<^verbatim>\<open>self\<close> is a record that every operation takes and returns;
  a raised exception is a value; the calls made to the collaborators (population store,
  evaluation executor, profiler, threads) are appended to a trace kept in the record.
\<close>

subsection \<open>Data\<close>

type_synonym program = string

text \<open>
  \<^verbatim>\<open>Function\<close> of \<^verbatim>\<open>llm4ad.base\<close>: the attributes this file reads and writes.
  The three annotations are unset (None) until the code assigns them. Scores and times
  are real numbers; no property below depends on how a float rounds.
\<close>

record Function =
  name :: string
  body :: string
  score :: "real option"
  sample_time :: "real option"
  evaluate_time :: "real option"

record prompt =
  code :: string
  island_id :: "int option"

text \<open>
  The exceptions the code tells apart: \<^verbatim>\<open>except KeyboardInterrupt\<close> against
  \<^verbatim>\<open>except Exception\<close>. \<open>OtherException\<close> is any other subclass of Exception.
\<close>

datatype pyexn = KeyboardInterrupt | ZeroDivisionError | RuntimeError | OtherException

datatype profiler_kind = ProfilerBase | FunSearchProfiler

datatype thread = MainThread | Sampler nat

datatype event =
    GetPrompt
  | Submit program
  | RegisterFunction Function "int option" "real option"
  | ProfilerRegisterFunction Function
  | ProfilerRegisterProgramDb
  | ProfilerFinish
  | PrintExc
  | Exit
  | ExecutorShutdown
  | ThreadStart nat

text \<open>
  The collaborators, none of which is defined in this file: the population store
  (\<open>get_prompt\<close>, \<open>register_function\<close>, over a store of any type \<open>'db\<close>), the
  sampler (\<open>draw_samples\<close>, which also gives the wall-clock time the call took), the
  converters and the evaluator. Each is a parameter; a call that may raise returns a sum.
\<close>

record 'db collaborators =
  get_prompt :: "'db \<Rightarrow> pyexn + prompt"
  draw_samples :: "string list \<Rightarrow> pyexn + (string list \<times> real)"
  sample_to_program :: "string \<Rightarrow> program \<Rightarrow> program option"
  evaluate_program_record_time :: "program \<Rightarrow> pyexn + (real option \<times> real)"
  program_to_function :: "program \<Rightarrow> Function option"
  register_function :: "Function \<Rightarrow> int option \<Rightarrow> real option \<Rightarrow> 'db \<Rightarrow> pyexn + 'db"

text \<open>
  The attributes of \<^verbatim>\<open>self\<close>. The executor is the list of the tasks submitted so far,
  each with the outcome its future will give, and a flag set by shutdown; a future is the
  index of its task.
\<close>

record 'db FunSearch =
  max_sample_nums :: "int option"
  num_samplers :: int
  num_evaluators :: int
  samples_per_prompt :: int
  debug_mode :: bool
  resume_mode :: bool
  function_to_evolve :: Function
  template_program :: program
  database :: "'db"
  profiler :: "profiler_kind option"
  tot_sample_nums :: int
  executor_tasks :: "(pyexn + (real option \<times> real)) list"
  executor_shutdown :: bool
  trace :: "(thread \<times> event) list"

definition emit :: "thread \<Rightarrow> event \<Rightarrow> 'db FunSearch \<Rightarrow> 'db FunSearch" where
  "emit t e s = s\<lparr>trace := trace s @ [(t, e)]\<rparr>"

subsection \<open>The evaluation executor\<close>

text \<open>
  \<^verbatim>\<open>executor.submit(evaluate_program_record_time, program)\<close>: refused after shutdown
  (RuntimeError), else the task is queued and its future returned.
\<close>

definition submit ::
  "'db collaborators \<Rightarrow> thread \<Rightarrow> 'db FunSearch \<Rightarrow> program \<Rightarrow> (pyexn + nat) \<times> 'db FunSearch" where
  "submit env t s p =
     (if executor_shutdown s then (Inl RuntimeError, s)
      else (Inr (length (executor_tasks s)),
            emit t (Submit p)
              (s\<lparr>executor_tasks := executor_tasks s @ [evaluate_program_record_time env p]\<rparr>)))"

text \<open>\<^verbatim>\<open>future.result()\<close>: the task's value, or the exception it raised.\<close>

definition result :: "'db FunSearch \<Rightarrow> nat \<Rightarrow> pyexn + (real option \<times> real)" where
  "result s h =
     (if h < length (executor_tasks s) then executor_tasks s ! h else Inl OtherException)"

subsection \<open>One iteration of the worker loop\<close>

text \<open>Line 123, the loop condition.\<close>

definition loop_cond :: "'db FunSearch \<Rightarrow> bool" where
  "loop_cond s =
     (case max_sample_nums s of None \<Rightarrow> True | Some m \<Rightarrow> tot_sample_nums s < m)"

text \<open>Lines 136 to 141: the candidates that convert, in order.\<close>

fun convert_samples :: "'db collaborators \<Rightarrow> program \<Rightarrow> string list \<Rightarrow> program list" where
  "convert_samples env tmpl [] = []"
| "convert_samples env tmpl (func # funcs) =
     (case sample_to_program env func tmpl of
        None \<Rightarrow> convert_samples env tmpl funcs
      | Some p \<Rightarrow> p # convert_samples env tmpl funcs)"

text \<open>Lines 144 to 147: submit each program; a refused submission ends the loop.\<close>

fun submit_all ::
  "'db collaborators \<Rightarrow> thread \<Rightarrow> 'db FunSearch \<Rightarrow> program list
     \<Rightarrow> (pyexn + nat list) \<times> 'db FunSearch" where
  "submit_all env t s [] = (Inr [], s)"
| "submit_all env t s (p # ps) =
     (case submit env t s p of
        (Inl e, s1) \<Rightarrow> (Inl e, s1)
      | (Inr h, s1) \<Rightarrow>
          (case submit_all env t s1 ps of
             (Inl e, s2) \<Rightarrow> (Inl e, s2)
           | (Inr hs, s2) \<Rightarrow> (Inr (h # hs), s2)))"

text \<open>Line 149: wait for each future in turn; the first exception propagates.\<close>

fun collect_results ::
  "'db FunSearch \<Rightarrow> nat list \<Rightarrow> pyexn + (real option \<times> real) list" where
  "collect_results s [] = Inr []"
| "collect_results s (h # hs) =
     (case result s h of
        Inl e \<Rightarrow> Inl e
      | Inr r \<Rightarrow>
          (case collect_results s hs of Inl e \<Rightarrow> Inl e | Inr rs \<Rightarrow> Inr (r # rs)))"

text \<open>
  Lines 143 to 150: the programs go to the executor and come back as the triples of
  line 154, \<^verbatim>\<open>zip(programs_to_be_eval, scores, times)\<close>.
\<close>

definition evaluate_batch ::
  "'db collaborators \<Rightarrow> thread \<Rightarrow> 'db FunSearch \<Rightarrow> program list
     \<Rightarrow> (pyexn + (program \<times> real option \<times> real) list) \<times> 'db FunSearch" where
  "evaluate_batch env t s programs_to_be_eval =
     (case submit_all env t s programs_to_be_eval of
        (Inl e, s1) \<Rightarrow> (Inl e, s1)
      | (Inr futures, s1) \<Rightarrow>
          (case collect_results s1 futures of
             Inl e \<Rightarrow> (Inl e, s1)
           | Inr scores_times \<Rightarrow>
               (Inr (zip programs_to_be_eval
                      (zip (map fst scores_times) (map snd scores_times))), s1)))"

text \<open>
  Lines 155 to 176, the body of the registration loop for one triple. The counter goes
  up first; a failed conversion is the \<^verbatim>\<open>continue\<close>; the store is called only with a
  score that is not None; the profiler gets the annotated function.
\<close>

definition register_one ::
  "'db collaborators \<Rightarrow> thread \<Rightarrow> int option \<Rightarrow> real \<Rightarrow> 'db FunSearch
     \<Rightarrow> program \<times> real option \<times> real \<Rightarrow> pyexn option \<times> 'db FunSearch" where
  "register_one env t island avg_time_for_each_sample s x =
     (case x of (p, sc, eval_time) \<Rightarrow>
        let s1 = s\<lparr>tot_sample_nums := tot_sample_nums s + 1\<rparr> in
        (case program_to_function env p of
           None \<Rightarrow> (None, s1)
         | Some f \<Rightarrow>
             (case (if sc \<noteq> None
                    then (case register_function env f island sc (database s1) of
                            Inl e \<Rightarrow> (Some e, emit t (RegisterFunction f island sc) s1)
                          | Inr db \<Rightarrow>
                              (None, (emit t (RegisterFunction f island sc) s1)\<lparr>database := db\<rparr>))
                    else (None, s1)) of
                (Some e, s2) \<Rightarrow> (Some e, s2)
              | (None, s2) \<Rightarrow>
                  (None,
                   if profiler s2 \<noteq> None
                   then (let f' = f\<lparr>score := sc,
                                     sample_time := Some avg_time_for_each_sample,
                                     evaluate_time := Some eval_time\<rparr>;
                             s3 = emit t (ProfilerRegisterFunction f') s2
                         in if profiler s3 = Some FunSearchProfiler
                            then emit t ProfilerRegisterProgramDb s3 else s3)
                   else s2))))"

text \<open>Line 154: the loop over the triples; an exception leaves it with what was done.\<close>

fun register_loop ::
  "'db collaborators \<Rightarrow> thread \<Rightarrow> int option \<Rightarrow> real \<Rightarrow> 'db FunSearch
     \<Rightarrow> (program \<times> real option \<times> real) list \<Rightarrow> pyexn option \<times> 'db FunSearch" where
  "register_loop env t island avg s [] = (None, s)"
| "register_loop env t island avg s (x # xs) =
     (case register_one env t island avg s x of
        (Some e, s1) \<Rightarrow> (Some e, s1)
      | (None, s1) \<Rightarrow> register_loop env t island avg s1 xs)"

text \<open>
  Lines 136 to 176 for a batch of candidate texts whose average sampling time is known.
\<close>

definition process_samples ::
  "'db collaborators \<Rightarrow> thread \<Rightarrow> int option \<Rightarrow> real \<Rightarrow> 'db FunSearch \<Rightarrow> string list
     \<Rightarrow> pyexn option \<times> 'db FunSearch" where
  "process_samples env t island avg s sampled_funcs =
     (case evaluate_batch env t s (convert_samples env (template_program s) sampled_funcs) of
        (Inl e, s1) \<Rightarrow> (Some e, s1)
      | (Inr triples, s1) \<Rightarrow> register_loop env t island avg s1 triples)"

text \<open>
  Lines 125 to 133: the prompt, the samples and the average time. The division by
  \<^verbatim>\<open>len(sampled_funcs)\<close> raises when the sampler gave nothing.
\<close>

definition draw ::
  "'db collaborators \<Rightarrow> thread \<Rightarrow> 'db FunSearch
     \<Rightarrow> (pyexn + (int option \<times> real \<times> string list)) \<times> 'db FunSearch" where
  "draw env t s =
     (let s1 = emit t GetPrompt s in
      case get_prompt env (database s) of
        Inl e \<Rightarrow> (Inl e, s1)
      | Inr pr \<Rightarrow>
          (let prompt_contents = replicate (nat (samples_per_prompt s)) (code pr) in
           case draw_samples env prompt_contents of
             Inl e \<Rightarrow> (Inl e, s1)
           | Inr (sampled_funcs, draw_sample_times) \<Rightarrow>
               if length sampled_funcs = 0 then (Inl ZeroDivisionError, s1)
               else (Inr (island_id pr,
                          draw_sample_times / real (length sampled_funcs),
                          sampled_funcs), s1)))"

text \<open>Lines 125 to 150: everything of the try block before the registration loop.\<close>

definition prepare ::
  "'db collaborators \<Rightarrow> thread \<Rightarrow> 'db FunSearch
     \<Rightarrow> (pyexn + (int option \<times> real \<times> (program \<times> real option \<times> real) list)) \<times> 'db FunSearch" where
  "prepare env t s =
     (case draw env t s of
        (Inl e, s1) \<Rightarrow> (Inl e, s1)
      | (Inr (island, avg, sampled_funcs), s1) \<Rightarrow>
          (case evaluate_batch env t s1
                  (convert_samples env (template_program s1) sampled_funcs) of
             (Inl e, s2) \<Rightarrow> (Inl e, s2)
           | (Inr triples, s2) \<Rightarrow> (Inr (island, avg, triples), s2)))"

text \<open>
  Lines 177 to 183. \<^verbatim>\<open>exit()\<close> raises SystemExit, which no clause of the loop catches:
  it leaves the function at once, past the shutdown of lines 186 to 189.
\<close>

datatype control = Continue | Break | SystemExit

definition handle_exception ::
  "thread \<Rightarrow> pyexn \<Rightarrow> 'db FunSearch \<Rightarrow> control \<times> 'db FunSearch" where
  "handle_exception t e s =
     (if e = KeyboardInterrupt then (Break, s)
      else if debug_mode s then (SystemExit, emit t Exit (emit t PrintExc s))
      else (Continue, s))"

text \<open>Lines 124 to 183: one pass through the body of the while loop.\<close>

definition iteration ::
  "'db collaborators \<Rightarrow> thread \<Rightarrow> 'db FunSearch \<Rightarrow> control \<times> 'db FunSearch" where
  "iteration env t s =
     (case draw env t s of
        (Inl e, s1) \<Rightarrow> handle_exception t e s1
      | (Inr (island, avg, sampled_funcs), s1) \<Rightarrow>
          (case process_samples env t island avg s1 sampled_funcs of
             (Some e, s2) \<Rightarrow> handle_exception t e s2
           | (None, s2) \<Rightarrow> (Continue, s2)))"

text \<open>Lines 186 to 189.\<close>

definition shutdown :: "thread \<Rightarrow> 'db FunSearch \<Rightarrow> 'db FunSearch" where
  "shutdown t s = emit t ExecutorShutdown (s\<lparr>executor_shutdown := True\<rparr>)"

subsection \<open>The worker as a thread\<close>

text \<open>
  A sampler thread is at one of these points: not started; at the loop condition; inside
  the try block before the registration loop; in the registration loop with the triples
  still to do; or ended, with the way it ended. One step runs the code up to the next
  point. The counter, the store and the executor are shared, so another thread may step
  in between.
\<close>

datatype ending = BudgetReached | Interrupted | Exited

datatype wstate =
    NotStarted
  | LoopHead
  | TryBody
  | ForLoop "int option" real "(program \<times> real option \<times> real) list"
  | Ended ending

definition after_exception ::
  "thread \<Rightarrow> pyexn \<Rightarrow> 'db FunSearch \<Rightarrow> wstate \<times> 'db FunSearch" where
  "after_exception t e s =
     (case handle_exception t e s of
        (Continue, s1) \<Rightarrow> (LoopHead, s1)
      | (Break, s1) \<Rightarrow> (Ended Interrupted, shutdown t s1)
      | (SystemExit, s1) \<Rightarrow> (Ended Exited, s1))"

fun sample_evaluate_register ::
  "'db collaborators \<Rightarrow> thread \<Rightarrow> wstate \<Rightarrow> 'db FunSearch \<Rightarrow> wstate \<times> 'db FunSearch" where
  "sample_evaluate_register env t NotStarted s = (NotStarted, s)"
| "sample_evaluate_register env t LoopHead s =
     (if loop_cond s then (TryBody, s) else (Ended BudgetReached, shutdown t s))"
| "sample_evaluate_register env t TryBody s =
     (case prepare env t s of
        (Inl e, s1) \<Rightarrow> after_exception t e s1
      | (Inr (island, avg, triples), s1) \<Rightarrow> (ForLoop island avg triples, s1))"
| "sample_evaluate_register env t (ForLoop island avg []) s = (LoopHead, s)"
| "sample_evaluate_register env t (ForLoop island avg (x # xs)) s =
     (case register_one env t island avg s x of
        (Some e, s1) \<Rightarrow> after_exception t e s1
      | (None, s1) \<Rightarrow> (ForLoop island avg xs, s1))"
| "sample_evaluate_register env t (Ended r) s = (Ended r, s)"

text \<open>
  The steps of a thread through one iteration, put together: from the try block through
  the registration loop, to where the thread stands afterwards. It is the function
  \<open>iteration\<close> above, step by step (lemma \<open>thread_iteration_is_iteration\<close>).
\<close>

fun registration_steps ::
  "'db collaborators \<Rightarrow> thread \<Rightarrow> int option \<Rightarrow> real \<Rightarrow> 'db FunSearch
     \<Rightarrow> (program \<times> real option \<times> real) list \<Rightarrow> wstate \<times> 'db FunSearch" where
  "registration_steps env t island avg s [] =
     sample_evaluate_register env t (ForLoop island avg []) s"
| "registration_steps env t island avg s (x # xs) =
     (case sample_evaluate_register env t (ForLoop island avg (x # xs)) s of
        (ForLoop island' avg' rest, s1) \<Rightarrow> registration_steps env t island avg s1 xs
      | (w, s1) \<Rightarrow> (w, s1))"

definition thread_iteration ::
  "'db collaborators \<Rightarrow> thread \<Rightarrow> 'db FunSearch \<Rightarrow> wstate \<times> 'db FunSearch" where
  "thread_iteration env t s =
     (case sample_evaluate_register env t TryBody s of
        (ForLoop island avg triples, s1) \<Rightarrow> registration_steps env t island avg s1 triples
      | (w, s1) \<Rightarrow> (w, s1))"

definition leave :: "thread \<Rightarrow> control \<times> 'db FunSearch \<Rightarrow> wstate \<times> 'db FunSearch" where
  "leave t r =
     (case r of
        (Continue, s) \<Rightarrow> (LoopHead, s)
      | (Break, s) \<Rightarrow> (Ended Interrupted, shutdown t s)
      | (SystemExit, s) \<Rightarrow> (Ended Exited, s))"

subsection \<open>run\<close>

text \<open>
  Lines 192 to 203: unless resuming, evaluate the template program, refuse a score of
  None, register the function to evolve and report it to the profiler. The test
  \<^verbatim>\<open>if self._profiler\<close> of line 200 holds of any profiler object, as
  \<^verbatim>\<open>is not None\<close> does.
\<close>

definition run_seed ::
  "'db collaborators \<Rightarrow> 'db FunSearch \<Rightarrow> pyexn option \<times> 'db FunSearch" where
  "run_seed env s =
     (if \<not> resume_mode s then
        (case evaluate_program_record_time env (template_program s) of
           Inl e \<Rightarrow> (Some e, s)
         | Inr (sc, eval_time) \<Rightarrow>
             if sc = None then (Some RuntimeError, s)
             else
               (let s1 = emit MainThread (RegisterFunction (function_to_evolve s) None sc) s in
                case register_function env (function_to_evolve s) None sc (database s) of
                  Inl e \<Rightarrow> (Some e, s1)
                | Inr db \<Rightarrow>
                    (let s2 = s1\<lparr>database := db\<rparr> in
                     if profiler s2 \<noteq> None
                     then (let f' = (function_to_evolve s2)
                                      \<lparr>score := sc, evaluate_time := Some eval_time\<rparr>
                           in (None, emit MainThread (ProfilerRegisterFunction f')
                                       (s2\<lparr>function_to_evolve := f'\<rparr>)))
                     else (None, s2))))
      else (None, s))"

text \<open>
  The main thread inside \<^verbatim>\<open>run\<close>: at its entry; starting the threads (the next one to
  start); joining them (the next one to join); returned; or left by an exception.
\<close>

datatype mstate = RunEntry | Starting nat | Joining nat | Returned | Raised pyexn

record 'db system =
  self :: "'db FunSearch"
  main :: mstate
  samplers :: "wstate list"

text \<open>
  One step of \<^verbatim>\<open>run\<close>. \<^verbatim>\<open>t.start()\<close> puts the thread at its loop condition;
  \<^verbatim>\<open>t.join()\<close> waits until the thread has ended.
\<close>

definition run :: "'db collaborators \<Rightarrow> 'db system \<Rightarrow> 'db system" where
  "run env sys =
     (case main sys of
        RunEntry \<Rightarrow>
          (case run_seed env (self sys) of
             (Some e, s1) \<Rightarrow> sys\<lparr>self := s1, main := Raised e\<rparr>
           | (None, s1) \<Rightarrow> sys\<lparr>self := s1, main := Starting 0\<rparr>)
      | Starting k \<Rightarrow>
          if k < length (samplers sys)
          then sys\<lparr>self := emit MainThread (ThreadStart k) (self sys),
                   main := Starting (Suc k),
                   samplers := (samplers sys)[k := LoopHead]\<rparr>
          else sys\<lparr>main := Joining 0\<rparr>
      | Joining k \<Rightarrow>
          if k < length (samplers sys)
          then (case samplers sys ! k of
                  Ended r \<Rightarrow> sys\<lparr>main := Joining (Suc k)\<rparr>
                | _ \<Rightarrow> sys)
          else sys\<lparr>self := (if profiler (self sys) \<noteq> None
                             then emit MainThread ProfilerFinish (self sys) else self sys),
                   main := Returned\<rparr>
      | Returned \<Rightarrow> sys
      | Raised e \<Rightarrow> sys)"

text \<open>
  The threads interleave: a schedule names, step by step, the thread that runs next and
  what the collaborators answer during that step.
\<close>

definition step :: "'db system \<Rightarrow> thread \<times> 'db collaborators \<Rightarrow> 'db system" where
  "step sys a =
     (case a of
        (MainThread, env) \<Rightarrow> run env sys
      | (Sampler i, env) \<Rightarrow>
          if i < length (samplers sys)
          then (case sample_evaluate_register env (Sampler i) (samplers sys ! i) (self sys) of
                  (w, s1) \<Rightarrow> sys\<lparr>self := s1, samplers := (samplers sys)[i := w]\<rparr>)
          else sys)"

definition execute :: "'db system \<Rightarrow> (thread \<times> 'db collaborators) list \<Rightarrow> 'db system" where
  "execute sys sched = foldl step sys sched"

text \<open>
  The state \<^verbatim>\<open>__init__\<close> leaves: the counter at 0, an executor with no task, one
  thread per sampler, none started.
\<close>

definition init ::
  "int option \<Rightarrow> int \<Rightarrow> int \<Rightarrow> int \<Rightarrow> bool \<Rightarrow> bool \<Rightarrow> profiler_kind option
     \<Rightarrow> Function \<Rightarrow> program \<Rightarrow> 'db \<Rightarrow> 'db system" where
  "init max_n n_samplers n_evaluators per_prompt resume debug prof f tmpl db =
     \<lparr>self = \<lparr>max_sample_nums = max_n, num_samplers = n_samplers,
               num_evaluators = n_evaluators, samples_per_prompt = per_prompt,
               debug_mode = debug, resume_mode = resume, function_to_evolve = f,
               template_program = tmpl, database = db, profiler = prof,
               tot_sample_nums = 0, executor_tasks = [], executor_shutdown = False,
               trace = []\<rparr>,
      main = RunEntry,
      samplers = replicate (nat n_samplers) NotStarted\<rparr>"

subsection \<open>Notions used by the properties\<close>

text \<open>The attributes of \<^verbatim>\<open>self\<close> that no line assigns after \<^verbatim>\<open>__init__\<close>.\<close>

definition config ::
  "'db FunSearch
     \<Rightarrow> int option \<times> int \<times> int \<times> bool \<times> bool \<times> program \<times> profiler_kind option" where
  "config s = (max_sample_nums s, num_samplers s, samples_per_prompt s, debug_mode s,
               resume_mode s, template_program s, profiler s)"



text \<open>A call of the store's \<^verbatim>\<open>register_function\<close> whose score is not None.\<close>

fun scored :: "thread \<times> event \<Rightarrow> bool" where
  "scored (t, RegisterFunction f island sc) = (sc \<noteq> None)"
| "scored (t, e) = True"


text \<open>The functions reported to the profiler, and the calls of the store, in a trace.\<close>

fun report_of :: "thread \<times> event \<Rightarrow> Function option" where
  "report_of (t, ProfilerRegisterFunction f) = Some f"
| "report_of (t, e) = None"

fun registration_of ::
  "thread \<times> event \<Rightarrow> (Function \<times> int option \<times> real option) option" where
  "registration_of (t, RegisterFunction f island sc) = Some (f, island, sc)"
| "registration_of (t, e) = None"

definition reports :: "(thread \<times> event) list \<Rightarrow> Function list" where
  "reports tr = List.map_filter report_of tr"

definition registrations ::
  "(thread \<times> event) list \<Rightarrow> (Function \<times> int option \<times> real option) list" where
  "registrations tr = List.map_filter registration_of tr"

text \<open>
  From \<open>s\<close> to \<open>s'\<close> the trace has only grown, by calls that thread \<open>t\<close> made and in
  which every registration has a score.
\<close>

definition emits :: "thread \<Rightarrow> 'db FunSearch \<Rightarrow> 'db FunSearch \<Rightarrow> bool" where
  "emits t s s' =
     (\<exists>ext. trace s' = trace s @ ext \<and> list_all (\<lambda>x. fst x = t \<and> scored x) ext)"




subsection \<open>Test doubles\<close>

text \<open>
  Collaborators to run the code on: a store that keeps its registrations in a list, hands
  out one fixed prompt and rejects the body \<open>reject\<close>; a sampler that answers
  \<open>gen\<close> of its prompts in 2 seconds; converters that fail on the texts \<open>bad\<close> and
  \<open>nofunc\<close>; an evaluator that gives no score to \<open>null\<close> and score 1 to the rest.
\<close>

definition stub_function :: "program \<Rightarrow> Function" where
  "stub_function p =
     \<lparr>name = ''f'', body = p, score = None, sample_time = None, evaluate_time = None\<rparr>"

definition stub ::
  "(string list \<Rightarrow> string list)
     \<Rightarrow> (Function \<times> int option \<times> real option) list collaborators" where
  "stub gen =
     \<lparr>get_prompt = (\<lambda>db. Inr \<lparr>code = ''seed'', island_id = Some 0\<rparr>),
      draw_samples = (\<lambda>contents. Inr (gen contents, 2)),
      sample_to_program = (\<lambda>func tmpl. if func = ''bad'' then None else Some func),
      evaluate_program_record_time =
        (\<lambda>p. if p = ''null'' then Inr (None, 1) else Inr (Some 1, 1)),
      program_to_function =
        (\<lambda>p. if p = ''nofunc'' then None else Some (stub_function p)),
      register_function =
        (\<lambda>f island sc db. if body f = ''reject'' then Inl OtherException
                           else Inr (db @ [(f, island, sc)]))\<rparr>"

text \<open>
  A FunSearch object as \<^verbatim>\<open>__init__\<close> leaves it: a budget of one sample, one sampler,
  one sample per prompt, a plain profiler, an empty store.
\<close>

definition stub_system ::
  "bool \<Rightarrow> int \<Rightarrow> program \<Rightarrow> (Function \<times> int option \<times> real option) list system" where
  "stub_system debug n_samplers tmpl =
     init (Some 1) n_samplers 1 1 False debug (Some ProfilerBase) (stub_function tmpl) tmpl []"

definition stub_self ::
  "bool \<Rightarrow> (Function \<times> int option \<times> real option) list FunSearch" where
  "stub_self debug = self (stub_system debug 1 ''seed'')"

text \<open>
  A whole run with one sampler and a budget of one sample: \<^verbatim>\<open>run\<close> seeds the store and
  starts the thread, the thread does one iteration and leaves the loop, \<^verbatim>\<open>run\<close> joins it
  and returns.
\<close>

definition stub_schedule ::
  "(thread \<times> (Function \<times> int option \<times> real option) list collaborators) list" where
  "stub_schedule =
     map (\<lambda>t. (t, stub id))
       [MainThread, MainThread, Sampler 0, Sampler 0, Sampler 0, Sampler 0, Sampler 0,
        MainThread, MainThread, MainThread]"

text \<open>
  A sampler whose call raises, and a run under debug mode with two samplers in which the
  first thread meets it and the second then works as usual.
\<close>

definition stub_failing :: "(Function \<times> int option \<times> real option) list collaborators" where
  "stub_failing = (stub id)\<lparr>draw_samples := (\<lambda>contents. Inl OtherException)\<rparr>"

definition exit_schedule ::
  "(thread \<times> (Function \<times> int option \<times> real option) list collaborators) list" where
  "exit_schedule =
     map (\<lambda>t. (t, stub id)) [MainThread, MainThread, MainThread] @
     map (\<lambda>t. (t, stub_failing)) [Sampler 0, Sampler 0] @
     map (\<lambda>t. (t, stub id))
       [Sampler 1, Sampler 1, Sampler 1, Sampler 1, Sampler 1,
        MainThread, MainThread, MainThread, MainThread]"

section \<open>Properties\<close>

subsection \<open>The steps of a thread make up the iteration\<close>

lemma after_exception_leave: "after_exception t e s = leave t (handle_exception t e s)"
  by (simp add: after_exception_def leave_def split: prod.splits control.splits)

lemma after_exception_cases:
  "after_exception t e s = (w, s2) \<Longrightarrow> w = LoopHead \<or> w = Ended Interrupted \<or> w = Ended Exited"
  by (auto simp: after_exception_def handle_exception_def split: if_splits)

lemma registration_steps_loop:
  "registration_steps env t island avg s triples =
     leave t (case register_loop env t island avg s triples of
                (Some e, s1) \<Rightarrow> handle_exception t e s1
              | (None, s1) \<Rightarrow> (Continue, s1))"
proof (induction triples arbitrary: s)
  case Nil
  show ?case by (simp add: leave_def)
next
  case (Cons x xs)
  obtain r s1 where r: "register_one env t island avg s x = (r, s1)"
    by (cases "register_one env t island avg s x")
  show ?case
  proof (cases r)
    case None
    with r Cons.IH [of s1] show ?thesis by simp
  next
    case (Some e)
    obtain w s2 where a: "after_exception t e s1 = (w, s2)"
      by (cases "after_exception t e s1")
    from after_exception_cases [OF a] r Some a after_exception_leave [of t e s1] show ?thesis
      by auto
  qed
qed

lemma thread_iteration_is_iteration:
  "thread_iteration env t s = leave t (iteration env t s)"
proof -
  obtain r s1 where p: "prepare env t s = (r, s1)" by (cases "prepare env t s")
  show ?thesis
  proof (cases r)
    case (Inl e)
    obtain w s2 where a: "after_exception t e s1 = (w, s2)"
      by (cases "after_exception t e s1")
    note nl = after_exception_cases [OF a]
    from p Inl have "draw env t s = (Inl e, s1) \<or>
        (\<exists>island avg sampled s0. draw env t s = (Inr (island, avg, sampled), s0) \<and>
           evaluate_batch env t s0 (convert_samples env (template_program s0) sampled) = (Inl e, s1))"
      by (auto simp: prepare_def split: prod.splits sum.splits)
    then have "iteration env t s = handle_exception t e s1"
      by (auto simp: iteration_def process_samples_def)
    with p Inl a nl after_exception_leave [of t e s1] show ?thesis
      by (auto simp: thread_iteration_def)
  next
    case (Inr v)
    obtain island avg triples where v: "v = (island, avg, triples)" by (cases v)
    from p Inr v obtain sampled s0 where d: "draw env t s = (Inr (island, avg, sampled), s0)"
      and e: "evaluate_batch env t s0 (convert_samples env (template_program s0) sampled)
                = (Inr triples, s1)"
      by (auto simp: prepare_def split: prod.splits sum.splits)
    then have "iteration env t s =
        (case register_loop env t island avg s1 triples of
           (Some e, s2) \<Rightarrow> handle_exception t e s2
         | (None, s2) \<Rightarrow> (Continue, s2))"
      by (simp add: iteration_def process_samples_def)
    with p Inr v registration_steps_loop [of env t island avg s1 triples] show ?thesis
      by (simp add: thread_iteration_def)
  qed
qed

subsection \<open>The budget counter in the registration loop\<close>

lemma register_one_counter:
  "tot_sample_nums (snd (register_one env t island avg s x)) = tot_sample_nums s + 1"
  by (cases x) (simp add: register_one_def emit_def Let_def split: option.splits sum.splits)

text \<open>
  C2, as the code has it: the registration loop raises the budget counter by one for
  every evaluated program it takes up, whether or not the program converts back to a
  Function and whether or not it is registered. A batch that the loop finishes raises the
  counter by the number of its programs.
\<close>

theorem counter_counts_every_evaluated_program:
  "register_loop env t island avg s triples = (None, s') \<Longrightarrow>
   tot_sample_nums s' = tot_sample_nums s + int (length triples)"
proof (induction triples arbitrary: s)
  case Nil
  then show ?case by simp
next
  case (Cons x xs)
  obtain r s1 where r: "register_one env t island avg s x = (r, s1)"
    by (cases "register_one env t island avg s x")
  with Cons.prems have rest: "register_loop env t island avg s1 xs = (None, s')"
    by (auto split: option.splits)
  have "tot_sample_nums s1 = tot_sample_nums s + 1"
    using register_one_counter [of env t island avg s x] r by simp
  with Cons.IH [OF rest] show ?case by simp
qed

text \<open>
  C2, witness: a batch of two programs, the first of which does not convert to a
  Function and the second of which has no score, raises the counter from 0 to 2.
\<close>

theorem counter_counts_every_evaluated_program_witness:
  "\<exists>s'. register_loop (stub id) (Sampler 0) (Some 0) 1 (stub_self False)
           [(''nofunc'', Some 1, 1), (''ok'', None, 1)] = (None, s')
        \<and> tot_sample_nums s' = 2"
proof -
  let ?run = "register_loop (stub id) (Sampler 0) (Some 0) 1 (stub_self False)
                [(''nofunc'', Some 1, 1), (''ok'', None, 1)]"
  have "fst ?run = None"
    by (simp add: register_one_def stub_def stub_self_def stub_system_def init_def emit_def
        stub_function_def)
  then obtain s' where e: "?run = (None, s')"
    by (cases ?run) simp
  from counter_counts_every_evaluated_program [OF e] e show ?thesis
    by (simp add: stub_self_def stub_system_def init_def)
qed

text \<open>
  C2, counterexample to the claim as stated (the counter goes up if and only if the
  conversion to a Function succeeds): for a program that does not convert, the counter
  still goes up by one.
\<close>

theorem counter_iff_conversion_counterexample:
  "\<not> (tot_sample_nums (snd (register_one (stub id) (Sampler 0) (Some 0) 1 (stub_self False)
                               (''nofunc'', Some 1, 1)))
        = tot_sample_nums (stub_self False) + 1
      \<longleftrightarrow> program_to_function (stub id) ''nofunc'' \<noteq> None)"
  by (simp add: register_one_def stub_def stub_self_def stub_system_def init_def)

subsection \<open>Order of the results of a batch\<close>

lemma submit_all_tasks:
  "submit_all env t s ps = (Inr hs, s1) \<Longrightarrow>
   executor_tasks s1 = executor_tasks s @ map (evaluate_program_record_time env) ps \<and>
   length hs = length ps \<and> (\<forall>i<length ps. hs ! i = length (executor_tasks s) + i)"
proof (induction ps arbitrary: s hs)
  case Nil
  then show ?case by simp
next
  case (Cons p ps)
  obtain r s' where sub: "submit env t s p = (r, s')"
    by (cases "submit env t s p")
  with Cons.prems obtain h where r: "r = Inr h"
    by (cases r) auto
  from sub r have h: "h = length (executor_tasks s)"
    and s': "executor_tasks s' = executor_tasks s @ [evaluate_program_record_time env p]"
    by (auto simp: submit_def emit_def split: if_splits)
  from Cons.prems sub r obtain hs' where rest: "submit_all env t s' ps = (Inr hs', s1)"
    and hs: "hs = h # hs'"
    by (auto split: prod.splits sum.splits)
  from Cons.IH [OF rest] s' h hs show ?case
    by (auto simp: nth_Cons split: nat.splits)
qed

lemma collect_results_nth:
  "collect_results s hs = Inr rs \<Longrightarrow>
   length rs = length hs \<and> (\<forall>i<length hs. result s (hs ! i) = Inr (rs ! i))"
proof (induction hs arbitrary: rs)
  case Nil
  then show ?case by simp
next
  case (Cons h hs)
  from Cons.prems obtain r rs' where r: "result s h = Inr r"
    and rest: "collect_results s hs = Inr rs'" and rs: "rs = r # rs'"
    by (auto split: sum.splits)
  from Cons.IH [OF rest] r rs show ?case
    by (auto simp: nth_Cons split: nat.splits)
qed

text \<open>
  C4: when a batch of programs has been submitted to the executor and its results
  collected, there are as many triples as programs, and the i-th triple holds the i-th
  submitted program together with the score and the evaluation time that the evaluator
  gives for that very program. These triples are what the registration loop runs over.
\<close>

theorem batch_results_keep_submission_order:
  assumes "evaluate_batch env t s ps = (Inr triples, s1)"
  shows "length triples = length ps \<and>
         (\<forall>i<length ps. \<exists>sc et. triples ! i = (ps ! i, sc, et) \<and>
              evaluate_program_record_time env (ps ! i) = Inr (sc, et))"
proof -
  from assms obtain hs rs where sub: "submit_all env t s ps = (Inr hs, s1)"
    and col: "collect_results s1 hs = Inr rs"
    and tr: "triples = zip ps (zip (map fst rs) (map snd rs))"
    by (auto simp: evaluate_batch_def split: prod.splits sum.splits)
  let ?n = "length (executor_tasks s)"
  from submit_all_tasks [OF sub]
  have tasks: "executor_tasks s1 = executor_tasks s @ map (evaluate_program_record_time env) ps"
    and hlen: "length hs = length ps"
    and hs: "\<forall>i<length ps. hs ! i = ?n + i" by simp_all
  from collect_results_nth [OF col] hlen
  have len: "length rs = length ps"
    and res: "\<forall>i<length ps. result s1 (hs ! i) = Inr (rs ! i)" by simp_all
  have "evaluate_program_record_time env (ps ! i) = Inr (rs ! i)" if "i < length ps" for i
  proof -
    from that hs have "hs ! i = ?n + i" by simp
    with that tasks have "result s1 (hs ! i) = evaluate_program_record_time env (ps ! i)"
      by (simp add: result_def nth_append)
    with res that show ?thesis by simp
  qed
  with tr len show ?thesis by simp
qed

text \<open>
  C4, witness: two programs, the second without a score; the second triple is the
  second program with the evaluator's answer for it.
\<close>

theorem batch_results_keep_submission_order_witness:
  "\<exists>triples s1.
     evaluate_batch (stub id) (Sampler 0) (stub_self False) [''a'', ''null'']
       = (Inr triples, s1) \<and>
     length triples = 2 \<and> triples ! 1 = (''null'', None, 1) \<and>
     evaluate_program_record_time (stub id) ''null'' = Inr (None, 1)"
proof -
  let ?run = "evaluate_batch (stub id) (Sampler 0) (stub_self False) [''a'', ''null'']"
  have "fst ?run = Inr [(''a'', Some 1, 1), (''null'', None, 1)]"
    by (simp add: evaluate_batch_def submit_def result_def emit_def stub_def stub_self_def
        stub_system_def init_def)
  then obtain s1 where e: "?run = (Inr [(''a'', Some 1, 1), (''null'', None, 1)], s1)"
    by (cases ?run) simp
  from batch_results_keep_submission_order [OF e] e show ?thesis
    by (simp add: stub_def)
qed

subsection \<open>Candidates that do not convert to a program\<close>

lemma convert_samples_append:
  "convert_samples env tmpl (xs @ ys) = convert_samples env tmpl xs @ convert_samples env tmpl ys"
  by (induction xs) (simp_all split: option.splits)

text \<open>
  C7: a candidate text whose conversion to a program gives no result leaves no mark.
  Whatever comes before and after it in the sampled batch, lines 136 to 176 (conversion,
  submission to the executor, collection, counting, registration, reports, and the
  exception raised if any) end in the same state with the same outcome as they do on the
  batch without that candidate: nothing is submitted for it, the counter does not move
  for it, nothing is registered for it and no error comes from it.
\<close>

theorem failed_conversion_is_dropped:
  "sample_to_program env c (template_program s) = None \<Longrightarrow>
   process_samples env t island avg s (xs @ c # ys)
     = process_samples env t island avg s (xs @ ys)"
proof -
  assume "sample_to_program env c (template_program s) = None"
  then have "convert_samples env (template_program s) [c] = []"
    by simp
  then have "convert_samples env (template_program s) (xs @ c # ys)
               = convert_samples env (template_program s) (xs @ ys)"
    using convert_samples_append [of env "template_program s" xs "[c] @ ys"]
      convert_samples_append [of env "template_program s" "[c]" ys]
      convert_samples_append [of env "template_program s" xs ys]
    by simp
  then show ?thesis
    by (simp add: process_samples_def)
qed

text \<open>
  C7, witness: the text \<open>bad\<close> between two texts that convert, and what the batch
  does: two submissions, the counter at 2, no exception.
\<close>

theorem failed_conversion_is_dropped_witness:
  "sample_to_program (stub id) ''bad'' (template_program (stub_self False)) = None \<and>
   process_samples (stub id) (Sampler 0) (Some 0) 1 (stub_self False) ([''a''] @ ''bad'' # [''b''])
     = process_samples (stub id) (Sampler 0) (Some 0) 1 (stub_self False) ([''a''] @ [''b'']) \<and>
   fst (process_samples (stub id) (Sampler 0) (Some 0) 1 (stub_self False)
          ([''a''] @ ''bad'' # [''b''])) = None \<and>
   tot_sample_nums (snd (process_samples (stub id) (Sampler 0) (Some 0) 1 (stub_self False)
          ([''a''] @ ''bad'' # [''b'']))) = 2 \<and>
   filter (\<lambda>x. \<exists>p. snd x = Submit p)
     (trace (snd (process_samples (stub id) (Sampler 0) (Some 0) 1 (stub_self False)
          ([''a''] @ ''bad'' # [''b''])))) = [(Sampler 0, Submit ''a''), (Sampler 0, Submit ''b'')]"
proof -
  have h: "sample_to_program (stub id) ''bad'' (template_program (stub_self False)) = None"
    by (simp add: stub_def)
  have "fst (process_samples (stub id) (Sampler 0) (Some 0) 1 (stub_self False) [''a'', ''b''])
          = None \<and>
        tot_sample_nums (snd (process_samples (stub id) (Sampler 0) (Some 0) 1
          (stub_self False) [''a'', ''b''])) = 2 \<and>
        filter (\<lambda>x. \<exists>p. snd x = Submit p)
          (trace (snd (process_samples (stub id) (Sampler 0) (Some 0) 1 (stub_self False)
             [''a'', ''b'']))) = [(Sampler 0, Submit ''a''), (Sampler 0, Submit ''b'')]"
    by (simp add: process_samples_def evaluate_batch_def submit_def result_def
        register_one_def emit_def stub_def stub_self_def stub_system_def init_def
        stub_function_def)
  with failed_conversion_is_dropped [OF h, of "Sampler 0" "Some 0" 1 "[''a'']" "[''b'']"] h
  show ?thesis by simp
qed

subsection \<open>A sampler that returns nothing\<close>



subsection \<open>Reports to the profiler\<close>

lemma reports_append: "reports (xs @ ys) = reports xs @ reports ys"
  by (simp add: reports_def List.map_filter_def)

lemma registrations_append: "registrations (xs @ ys) = registrations xs @ registrations ys"
  by (simp add: registrations_def List.map_filter_def)




subsection \<open>A template program without a score\<close>

lemma replicate_update_same: "(replicate n x)[i := x] = replicate n x"
  by (induction n arbitrary: i) (auto split: nat.splits)

lemma execute_snoc: "execute sys (sched @ [a]) = step (execute sys sched) a"
  by (simp add: execute_def)

text \<open>
  C3: when \<^verbatim>\<open>resume_mode\<close> is false and the evaluator gives the template program no
  score, then however the threads are scheduled, the only thing that ever happens is
  that \<^verbatim>\<open>run\<close> raises RuntimeError: the state stays the one \<^verbatim>\<open>__init__\<close> left, so no
  sampler thread is started, the store is not called and is unchanged, and the profiler
  gets no report.
\<close>

theorem seed_without_score_aborts:
  assumes "\<not> resume"
    and "\<forall>a \<in> set sched. \<exists>et. evaluate_program_record_time (snd a) tmpl = Inr (None, et)"
  shows "execute (init max_n n ne spp resume debug prof f tmpl db) sched =
         (init max_n n ne spp resume debug prof f tmpl db)
           \<lparr>main := (if MainThread \<in> fst ` set sched then Raised RuntimeError else RunEntry)\<rparr>"
  using assms(2)
proof (induction sched rule: rev_induct)
  case Nil
  then show ?case by (simp add: execute_def init_def)
next
  case (snoc a sched)
  let ?S = "init max_n n ne spp resume debug prof f tmpl db"
  obtain t env where a: "a = (t, env)" by (cases a)
  from snoc.prems a obtain et where ev: "evaluate_program_record_time env tmpl = Inr (None, et)"
    by auto
  from snoc have IH: "execute ?S sched =
      ?S\<lparr>main := (if MainThread \<in> fst ` set sched then Raised RuntimeError else RunEntry)\<rparr>"
    by simp
  show ?case
  proof (cases t)
    case MainThread
    with a ev IH assms(1) show ?thesis
      by (simp add: execute_snoc step_def run_def run_seed_def init_def)
  next
    case (Sampler i)
    with a IH show ?thesis
      by (simp add: execute_snoc step_def init_def replicate_update_same)
  qed
qed

text \<open>
  C3, witness: the template \<open>null\<close>, to which the test evaluator gives no score;
  \<^verbatim>\<open>run\<close> is entered and the scheduler then tries the sampler thread.
\<close>

theorem seed_without_score_aborts_witness:
  "\<not> False \<and>
   evaluate_program_record_time (stub id) ''null'' = Inr (None, 1) \<and>
   execute (stub_system False 1 ''null'') [(MainThread, stub id), (Sampler 0, stub id)]
     = (stub_system False 1 ''null'')\<lparr>main := Raised RuntimeError\<rparr> \<and>
   samplers ((stub_system False 1 ''null'')\<lparr>main := Raised RuntimeError\<rparr>) = [NotStarted] \<and>
   trace (self ((stub_system False 1 ''null'')\<lparr>main := Raised RuntimeError\<rparr>)) = []"
proof -
  have h1: "\<not> False" by simp
  have h2: "\<forall>a \<in> set [(MainThread, stub id), (Sampler 0, stub id)].
      \<exists>et. evaluate_program_record_time (snd a) ''null'' = Inr (None, et)"
    by (simp add: stub_def)
  from seed_without_score_aborts [OF h1 h2, of "Some 1" 1 1 1 False "Some ProfilerBase"
      "stub_function ''null''" "[]"]
  show ?thesis by (simp add: stub_system_def init_def stub_def)
qed

subsection \<open>What a thread adds to the trace\<close>

lemma emits_refl: "emits t s s"
  by (simp add: emits_def)

lemma emits_trans: "emits t s s1 \<Longrightarrow> emits t s1 s2 \<Longrightarrow> emits t s s2"
  by (auto simp: emits_def)

lemma emits_submit: "emits t s (snd (submit env t s p))"
  by (simp add: submit_def emits_def emit_def)

lemma emits_submit_all: "emits t s (snd (submit_all env t s ps))"
proof (induction ps arbitrary: s)
  case Nil
  show ?case by (simp add: emits_refl)
next
  case (Cons p ps)
  obtain r s1 where sub: "submit env t s p = (r, s1)"
    by (cases "submit env t s p")
  with emits_submit [of t s env p] have e1: "emits t s s1" by simp
  show ?case
  proof (cases r)
    case (Inl e)
    with sub e1 show ?thesis by simp
  next
    case (Inr h)
    from emits_trans [OF e1 Cons.IH [of s1]] sub Inr show ?thesis
      by (auto split: prod.splits sum.splits)
  qed
qed

lemma emits_evaluate_batch: "emits t s (snd (evaluate_batch env t s ps))"
  using emits_submit_all [of t s env ps]
  by (auto simp: evaluate_batch_def split: prod.splits sum.splits)

lemma draw_state: "snd (draw env t s) = emit t GetPrompt s"
  by (simp add: draw_def Let_def split: sum.splits prod.splits)

lemma emits_prepare: "emits t s (snd (prepare env t s))"
proof -
  have e1: "emits t s (emit t GetPrompt s)"
    by (simp add: emits_def emit_def)
  obtain r s1 where d: "draw env t s = (r, s1)" by (cases "draw env t s")
  with draw_state [of env t s] have s1: "s1 = emit t GetPrompt s" by simp
  show ?thesis
  proof (cases r)
    case (Inl e)
    with d s1 e1 show ?thesis by (simp add: prepare_def)
  next
    case (Inr v)
    obtain island avg sampled where v: "v = (island, avg, sampled)" by (cases v)
    have "emits t s1 (snd (evaluate_batch env t s1 (convert_samples env (template_program s1) sampled)))"
      by (rule emits_evaluate_batch)
    with e1 s1 have "emits t s (snd (evaluate_batch env t s1 (convert_samples env (template_program s1) sampled)))"
      by (auto intro: emits_trans)
    with d Inr v show ?thesis
      by (auto simp: prepare_def split: prod.splits sum.splits)
  qed
qed

lemma emits_register_one: "emits t s (snd (register_one env t island avg s x))"
  by (cases x)
    (auto simp: register_one_def emits_def emit_def Let_def split: option.splits sum.splits)

lemma emits_after_exception: "emits t s (snd (after_exception t e s))"
  by (simp add: after_exception_def handle_exception_def shutdown_def emits_def emit_def)

lemma emits_worker: "emits t s (snd (sample_evaluate_register env t w s))"
proof (cases w)
  case NotStarted
  then show ?thesis by (simp add: emits_refl)
next
  case LoopHead
  then show ?thesis by (simp add: emits_refl shutdown_def emits_def emit_def)
next
  case TryBody
  obtain r s1 where p: "prepare env t s = (r, s1)" by (cases "prepare env t s")
  with emits_prepare [of t s env] have e1: "emits t s s1" by simp
  show ?thesis
  proof (cases r)
    case (Inl e)
    with TryBody p emits_trans [OF e1 emits_after_exception [of t s1 e]] show ?thesis by simp
  next
    case (Inr v)
    with TryBody p e1 show ?thesis by (auto split: prod.splits)
  qed
next
  case (ForLoop island avg triples)
  show ?thesis
  proof (cases triples)
    case Nil
    with ForLoop show ?thesis by (simp add: emits_refl)
  next
    case (Cons x xs)
    obtain r s1 where p: "register_one env t island avg s x = (r, s1)"
      by (cases "register_one env t island avg s x")
    with emits_register_one [of t s env island avg x] have e1: "emits t s s1" by simp
    show ?thesis
    proof (cases r)
      case None
      with ForLoop Cons p e1 show ?thesis by simp
    next
      case (Some e)
      with ForLoop Cons p emits_trans [OF e1 emits_after_exception [of t s1 e]]
      show ?thesis by simp
    qed
  qed
next
  case (Ended r)
  then show ?thesis by (simp add: emits_refl)
qed

lemma emits_run_seed: "emits MainThread s (snd (run_seed env s))"
  by (auto simp: run_seed_def emits_def emit_def Let_def split: sum.splits prod.splits)

lemma emits_run: "emits MainThread (self sys) (self (run env sys))"
proof (cases "main sys")
  case RunEntry
  with emits_run_seed [of "self sys" env] show ?thesis
    by (auto simp: run_def split: prod.splits option.splits)
next
  case (Starting k)
  then show ?thesis by (simp add: run_def emits_def emit_def emits_refl)
next
  case (Joining k)
  then show ?thesis by (auto simp: run_def emits_def emit_def split: wstate.splits)
next
  case Returned
  then show ?thesis by (simp add: run_def emits_refl)
next
  case (Raised e)
  then show ?thesis by (simp add: run_def emits_refl)
qed

lemma emits_step: "emits (fst a) (self sys) (self (step sys a))"
proof (cases a)
  case (Pair t env)
  show ?thesis
  proof (cases t)
    case MainThread
    with Pair emits_run [of sys env] show ?thesis by (simp add: step_def)
  next
    case (Sampler i)
    with Pair emits_worker [of "Sampler i" "self sys" env "samplers sys ! i"] show ?thesis
      by (auto simp: step_def emits_refl split: prod.splits)
  qed
qed
lemma scored_execute:
  "list_all scored (trace (self sys)) \<Longrightarrow> list_all scored (trace (self (execute sys sched)))"
proof (induction sched rule: rev_induct)
  case Nil
  then show ?case by (simp add: execute_def)
next
  case (snoc a sched)
  from emits_step [of a "execute sys sched"] snoc show ?case
    by (auto simp: execute_snoc emits_def list_all_iff)
qed

lemmas run_defs = execute_def step_def run_def run_seed_def prepare_def draw_def
  evaluate_batch_def submit_def result_def register_one_def loop_cond_def shutdown_def
  after_exception_def handle_exception_def emit_def
  stub_def stub_function_def stub_system_def init_def stub_schedule_def

lemma stub_run:
  "execute (stub_system False 1 ''seed'') stub_schedule =
   \<lparr>self =
    \<lparr>max_sample_nums = Some 1, num_samplers = 1, num_evaluators = 1,
       samples_per_prompt = 1, debug_mode = False, resume_mode = False,
       function_to_evolve =
         \<lparr>name = ''f'', body = ''seed'', score = Some 1, sample_time = None,
            evaluate_time = Some 1\<rparr>,
       template_program = ''seed'',
       database =
         [(stub_function ''seed'', None, Some 1), (stub_function ''seed'', Some 0, Some 1)],
       profiler = Some ProfilerBase, tot_sample_nums = 1,
       executor_tasks = [Inr (Some 1, 1)], executor_shutdown = True,
       trace =
         [(MainThread, RegisterFunction (stub_function ''seed'') None (Some 1)),
          (MainThread,
           ProfilerRegisterFunction
            \<lparr>name = ''f'', body = ''seed'', score = Some 1,
               sample_time = None, evaluate_time = Some 1\<rparr>),
          (MainThread, ThreadStart 0), (Sampler 0, GetPrompt),
          (Sampler 0, Submit ''seed''),
          (Sampler 0, RegisterFunction (stub_function ''seed'') (Some 0) (Some 1)),
          (Sampler 0,
           ProfilerRegisterFunction
            \<lparr>name = ''f'', body = ''seed'', score = Some 1,
               sample_time = Some 2, evaluate_time = Some 1\<rparr>),
          (Sampler 0, ExecutorShutdown), (MainThread, ProfilerFinish)]\<rparr>,
    main = Returned, samplers = [Ended BudgetReached]\<rparr>"
  by (simp add: run_defs Let_def)

text \<open>
  C1: in a run from the state \<^verbatim>\<open>__init__\<close> leaves, whatever the configuration, the
  collaborators and the scheduling, every call of the store's \<^verbatim>\<open>register_function\<close>,
  by \<^verbatim>\<open>run\<close> for the seed or by a sampler thread for a sample, passes a score that is
  not None.
\<close>

theorem registered_score_is_not_none:
  assumes "(t, RegisterFunction g island sc)
             \<in> set (trace (self (execute
                   (init max_n n ne per_prompt resume debug prof f tmpl db) sched)))"
  shows "sc \<noteq> None"
proof -
  let ?S = "init max_n n ne per_prompt resume debug prof f tmpl db"
  have "list_all scored (trace (self ?S))"
    by (simp add: init_def)
  then have "list_all scored (trace (self (execute ?S sched)))"
    by (rule scored_execute)
  with assms have "scored (t, RegisterFunction g island sc)"
    by (auto simp: list_all_iff)
  then show ?thesis by simp
qed

text \<open>
  C1, witness: the registration made by the sampler thread in the run of the test
  doubles.
\<close>

theorem registered_score_is_not_none_witness:
  "(Sampler 0, RegisterFunction (stub_function ''seed'') (Some 0) (Some 1))
     \<in> set (trace (self (execute (stub_system False 1 ''seed'') stub_schedule))) \<and>
   Some (1::real) \<noteq> None"
proof -
  have m: "(Sampler 0, RegisterFunction (stub_function ''seed'') (Some 0) (Some 1))
     \<in> set (trace (self (execute
          (init (Some 1) 1 1 1 False False (Some ProfilerBase) (stub_function ''seed'')
             ''seed'' []) stub_schedule)))"
    using stub_run by (simp add: stub_system_def)
  from registered_score_is_not_none [OF m] m show ?thesis
    by (simp add: stub_system_def)
qed

subsection \<open>The seed is registered first\<close>












subsection \<open>The budget counter at the end of a run\<close>

lemma emit_frame [simp]:
  "config (emit t e s) = config s" "tot_sample_nums (emit t e s) = tot_sample_nums s"
  by (simp_all add: emit_def config_def)


























subsection \<open>An exception inside an iteration\<close>

text \<open>
  The handler of lines 177 to 183 on an exception other than KeyboardInterrupt: it keeps
  the state the iteration had reached (nothing is undone); without debug mode the loop
  goes on, under debug mode the traceback is printed and \<^verbatim>\<open>exit()\<close> ends the thread.
\<close>

lemma handler_keeps_state:
  assumes "e \<noteq> KeyboardInterrupt"
  shows "after_exception t e s =
           (if debug_mode s then (Ended Exited, emit t Exit (emit t PrintExc s))
            else (LoopHead, s))"
  using assms by (simp add: after_exception_def handle_exception_def)

text \<open>
  Without debug mode, a store that raises on the second of three samples: the first
  registration and both increments stand, and the third sample is never reached.
\<close>

lemma no_rollback_example:
  "fst (register_loop (stub id) (Sampler 0) (Some 0) 1 (stub_self False)
          [(''a'', Some 1, 1), (''reject'', Some 1, 1), (''b'', Some 1, 1)])
     = Some OtherException \<and>
   tot_sample_nums (snd (register_loop (stub id) (Sampler 0) (Some 0) 1 (stub_self False)
          [(''a'', Some 1, 1), (''reject'', Some 1, 1), (''b'', Some 1, 1)])) = 2 \<and>
   database (snd (register_loop (stub id) (Sampler 0) (Some 0) 1 (stub_self False)
          [(''a'', Some 1, 1), (''reject'', Some 1, 1), (''b'', Some 1, 1)]))
     = [(stub_function ''a'', Some 0, Some 1)]"
  by (simp add: register_one_def stub_def stub_self_def stub_system_def init_def emit_def
      stub_function_def)

text \<open>
  C9, the code at the failing input: debug mode, two sampler threads, and a sampler
  backend that raises in the first thread. That thread prints the traceback and calls
  \<^verbatim>\<open>exit()\<close>, which raises SystemExit in that thread and ends it, not the process: the
  second thread goes on to fetch a prompt, evaluate and register a sample, and \<^verbatim>\<open>run\<close>
  joins both threads, tells the profiler to finish and returns.
\<close>

theorem debug_exit_ends_only_its_thread:
  "main (execute (stub_system True 2 ''seed'') exit_schedule) = Returned \<and>
   samplers (execute (stub_system True 2 ''seed'') exit_schedule)
     = [Ended Exited, Ended BudgetReached] \<and>
   trace (self (execute (stub_system True 2 ''seed'') exit_schedule)) =
     [(MainThread, RegisterFunction (stub_function ''seed'') None (Some 1)),
      (MainThread,
       ProfilerRegisterFunction
         \<lparr>name = ''f'', body = ''seed'', score = Some 1, sample_time = None,
           evaluate_time = Some 1\<rparr>),
      (MainThread, ThreadStart 0), (MainThread, ThreadStart 1),
      (Sampler 0, GetPrompt), (Sampler 0, PrintExc), (Sampler 0, Exit),
      (Sampler 1, GetPrompt), (Sampler 1, Submit ''seed''),
      (Sampler 1, RegisterFunction (stub_function ''seed'') (Some 0) (Some 1)),
      (Sampler 1,
       ProfilerRegisterFunction
         \<lparr>name = ''f'', body = ''seed'', score = Some 1, sample_time = Some 2,
           evaluate_time = Some 1\<rparr>),
      (Sampler 1, ExecutorShutdown), (MainThread, ProfilerFinish)]"
  by (simp add: run_defs exit_schedule_def stub_failing_def Let_def numeral_2_eq_2)

end
